theory Spec2Isabelle
  imports Complex_Main "HOL-Library.Word"
begin

unbundle bit_operations_syntax

section \<open>Data model\<close>

type_synonym byte = "8 word"

text \<open>Go's \<^verbatim>\<open>int32\<close>; read as a signed number with \<^term>\<open>sint\<close>.\<close>

type_synonym int32 = "32 word"

text \<open>\<^verbatim>\<open>time.Duration\<close> is an \<^verbatim>\<open>int64\<close> count of nanoseconds.\<close>

type_synonym Duration = "64 word"

text \<open>
  Run-time panics and the error values of the library calls the commands make.
\<close>

datatype error =
    IndexOutOfRange
  | InvalidLength nat
  | InvalidFormat
  | InvalidUrnPrefix string

section \<open>UUIDs from row numbers (ann-benchmark import)\<close>

text \<open>
  \<^verbatim>\<open>binary.BigEndian.PutUint64(b, v)\<close> writes the eight bytes of \<open>v\<close>, most significant
  first; here it returns the eight bytes written.
\<close>

definition PutUint64 :: "64 word \<Rightarrow> byte list" where
  "PutUint64 v =
     [ucast (drop_bit 56 v), ucast (drop_bit 48 v), ucast (drop_bit 40 v), ucast (drop_bit 32 v),
      ucast (drop_bit 24 v), ucast (drop_bit 16 v), ucast (drop_bit 8 v), ucast v]"

text \<open>
  \<^verbatim>\<open>binary.BigEndian.Uint64(b)\<close> reads \<open>b[0..7]\<close>; on a shorter slice the bounds check
  panics.
\<close>

fun Uint64 :: "byte list \<Rightarrow> error + 64 word" where
  "Uint64 (b0 # b1 # b2 # b3 # b4 # b5 # b6 # b7 # _) =
     Inr (ucast b7 OR push_bit 8 (ucast b6) OR push_bit 16 (ucast b5) OR push_bit 24 (ucast b4) OR
          push_bit 32 (ucast b3) OR push_bit 40 (ucast b2) OR push_bit 48 (ucast b1) OR
          push_bit 56 (ucast b0))"
| "Uint64 _ = Inl IndexOutOfRange"

text \<open>
  The UUID library (\<^verbatim>\<open>github.com/google/uuid\<close>): a UUID is an array of 16 bytes.
  \<^verbatim>\<open>FromBytes\<close> refuses any other length; \<^verbatim>\<open>String\<close> prints the canonical form
  \<^verbatim>\<open>xxxxxxxx-xxxx-xxxx-xxxx-xxxxxxxxxxxx\<close> in lower-case hexadecimal; \<^verbatim>\<open>Parse\<close> reads the
  canonical form, the same with a \<^verbatim>\<open>urn:uuid:\<close> prefix, the same with one character before
  and after it, and 32 hexadecimal digits in a row.
\<close>

definition FromBytes :: "byte list \<Rightarrow> error + byte list" where
  "FromBytes b = (if length b \<noteq> 16 then Inl (InvalidLength (length b)) else Inr b)"

definition hextable :: string where
  "hextable = ''0123456789abcdef''"

definition encodeHexByte :: "byte \<Rightarrow> string" where
  "encodeHexByte b = [hextable ! unat (drop_bit 4 b), hextable ! unat (b AND 0x0f)]"

definition hexEncode :: "byte list \<Rightarrow> string" where
  "hexEncode src = concat (map encodeHexByte src)"

definition String :: "byte list \<Rightarrow> string" where
  "String uuid =
     hexEncode (take 4 uuid) @ ''-'' @ hexEncode (take 2 (drop 4 uuid)) @ ''-'' @
     hexEncode (take 2 (drop 6 uuid)) @ ''-'' @ hexEncode (take 2 (drop 8 uuid)) @ ''-'' @
     hexEncode (drop 10 uuid)"

text \<open>The value of a hexadecimal digit, 255 for any other character.\<close>

definition xvalue :: "char \<Rightarrow> byte" where
  "xvalue c =
     (let n = (of_char c :: nat) in
      if 48 \<le> n \<and> n \<le> 57 then of_nat (n - 48)
      else if 65 \<le> n \<and> n \<le> 70 then of_nat (n - 55)
      else if 97 \<le> n \<and> n \<le> 102 then of_nat (n - 87)
      else 255)"

definition xtob :: "char \<Rightarrow> char \<Rightarrow> byte \<times> bool" where
  "xtob x1 x2 =
     (let b1 = xvalue x1; b2 = xvalue x2 in (push_bit 4 b1 OR b2, b1 \<noteq> 255 \<and> b2 \<noteq> 255))"

text \<open>Decodes the digit pairs that start at the given positions of \<open>s\<close>.\<close>

fun decodePairs :: "string \<Rightarrow> nat list \<Rightarrow> error + byte list" where
  "decodePairs s [] = Inr []"
| "decodePairs s (x # xs) =
     (case xtob (s ! x) (s ! (x + 1)) of
        (v, ok) \<Rightarrow>
          if \<not> ok then Inl InvalidFormat
          else (case decodePairs s xs of Inl e \<Rightarrow> Inl e | Inr vs \<Rightarrow> Inr (v # vs)))"

text \<open>Only called on strings of at least 36 characters.\<close>

definition parseCanonical :: "string \<Rightarrow> error + byte list" where
  "parseCanonical s =
     (if s ! 8 \<noteq> CHR ''-'' \<or> s ! 13 \<noteq> CHR ''-'' \<or> s ! 18 \<noteq> CHR ''-'' \<or> s ! 23 \<noteq> CHR ''-''
      then Inl InvalidFormat
      else decodePairs s [0, 2, 4, 6, 9, 11, 14, 16, 19, 21, 24, 26, 28, 30, 32, 34])"

text \<open>Lower-casing of the ASCII letters, which is all the prefix test below depends on.\<close>

definition asciiLower :: "char \<Rightarrow> char" where
  "asciiLower c =
     (let n = (of_char c :: nat) in if 65 \<le> n \<and> n \<le> 90 then char_of (n + 32) else c)"

definition Parse :: "string \<Rightarrow> error + byte list" where
  "Parse s =
     (if length s = 36 then parseCanonical s
      else if length s = 36 + 9 then
        (if map asciiLower (take 9 s) \<noteq> ''urn:uuid:'' then Inl (InvalidUrnPrefix (take 9 s))
         else parseCanonical (drop 9 s))
      else if length s = 36 + 2 then parseCanonical (drop 1 s)
      else if length s = 32 then
        decodePairs s [0, 2, 4, 6, 8, 10, 12, 14, 16, 18, 20, 22, 24, 26, 28, 30]
      else Inl (InvalidLength (length s)))"

text \<open>
  \<^verbatim>\<open>uuidFromInt\<close>: sixteen zero bytes, the last eight overwritten with \<open>uint64(val)\<close> in
  big-endian order, printed as a UUID. Go's \<^verbatim>\<open>int\<close> has 64 bits here, so \<open>uint64(val)\<close>
  is \<open>val\<close> modulo \<open>2 ^ 64\<close>. An error of \<^verbatim>\<open>FromBytes\<close> is a panic.
\<close>

definition uuidFromInt :: "int \<Rightarrow> error + string" where
  "uuidFromInt val =
     (let bytes = replicate 16 (0 :: byte);
          bytes = take 8 bytes @ PutUint64 (word_of_int val) @ drop 16 bytes
      in case FromBytes bytes of Inl err \<Rightarrow> Inl err | Inr uuid \<Rightarrow> Inr (String uuid))"

text \<open>
  \<^verbatim>\<open>int32FromUUID\<close>: parses the string (an error is a panic), reads the last eight bytes
  as a big-endian \<open>uint64\<close> and truncates it to \<open>int32\<close>.
\<close>

definition int32FromUUID :: "string \<Rightarrow> error + int32" where
  "int32FromUUID uuidStr =
     (case Parse uuidStr of
        Inl err \<Rightarrow> Inl err
      | Inr uuid \<Rightarrow>
          (case Uint64 (drop 8 uuid) of Inl err \<Rightarrow> Inl err | Inr val \<Rightarrow> Inr (ucast val)))"

section \<open>The pause after an import\<close>

text \<open>The constants of Go's \<^verbatim>\<open>time\<close> package.\<close>

definition Nanosecond :: Duration where
  "Nanosecond = 1"

definition Microsecond :: Duration where
  "Microsecond = 1000 * Nanosecond"

definition Millisecond :: Duration where
  "Millisecond = 1000 * Microsecond"

definition Second :: Duration where
  "Second = 1000 * Millisecond"

text \<open>
  \<^verbatim>\<open>sleepDuration := 5 & time.Second\<close> in \<^verbatim>\<open>loadANNBenchmarksFile\<close>: the operator is the
  bitwise conjunction.
\<close>

definition sleepDuration :: Duration where
  "sleepDuration = 5 AND Second"

section \<open>Query payloads\<close>

text \<open>
  A \<^verbatim>\<open>float32\<close> is carried as its 32-bit IEEE-754 pattern: the code never computes
  with the vectors, it only prints them or copies their bytes.
\<close>

type_synonym float32 = "32 word"


text \<open>The verb \<^verbatim>\<open>%d\<close> of \<^verbatim>\<open>fmt.Sprintf\<close> on an \<^verbatim>\<open>int\<close>.\<close>

fun formatNat :: "nat \<Rightarrow> string" where
  "formatNat n =
     (if n < 10 then [''0123456789'' ! n]
      else formatNat (n div 10) @ [''0123456789'' ! (n mod 10)])"

declare formatNat.simps [simp del]

definition formatInt :: "int \<Rightarrow> string" where
  "formatInt i = (if i < 0 then CHR ''-'' # formatNat (nat (- i)) else formatNat (nat i))"

text \<open>
  The JSON builders of \<^verbatim>\<open>random_vectors.go\<close>. \<open>jsonMarshal\<close> stands for
  \<^verbatim>\<open>string(json.Marshal(vec))\<close>, whose error is dropped by the code. The format strings are
  raw string literals: their line breaks and tabs are part of the payload.
\<close>

definition nearVectorQueryJSONGraphQLRaw :: "string \<Rightarrow> string" where
  \<open>nearVectorQueryJSONGraphQLRaw raw =
     ''{'' @ [CHR 0x0A] @ ''"query": "'' @ raw @ ''"'' @ [CHR 0x0A] @ ''}''\<close>

definition nearVectorQueryJSONGraphQL ::
  "(float32 list \<Rightarrow> string) \<Rightarrow> string \<Rightarrow> float32 list \<Rightarrow> int \<Rightarrow> string \<Rightarrow> string" where
  \<open>nearVectorQueryJSONGraphQL jsonMarshal className vec limit whereFilter =
     (let vecJSON = jsonMarshal vec in
      ''{'' @ [CHR 0x0A] @ ''"query": "{ Get { '' @ className @ ''(limit: '' @ formatInt limit @
      '', nearVector: {vector:'' @ vecJSON @ ''}'' @ whereFilter @
      '') { _additional { id } } } }"'' @ [CHR 0x0A] @ ''}'')\<close>

definition nearVectorQueryJSONRest ::
  "(float32 list \<Rightarrow> string) \<Rightarrow> string \<Rightarrow> float32 list \<Rightarrow> int \<Rightarrow> string" where
  \<open>nearVectorQueryJSONRest jsonMarshal className vec limit =
     (let vecJSON = jsonMarshal vec in
      ''{'' @ [CHR 0x0A, CHR 0x09, CHR 0x09] @ ''"nearVector":{"vector":'' @ vecJSON @ ''},'' @
      [CHR 0x0A, CHR 0x09, CHR 0x09] @ ''"limit":'' @ formatInt limit @ [CHR 0x0A] @ ''}'')\<close>

text \<open>
  The same two builders in the earlier revision of the file (\<^verbatim>\<open>src/unnamed/part_000\<close>),
  before the where filter was added: the GraphQL builder has three parameters, and its
  format string has a blank after the closing quote of the query.
\<close>

definition nearVectorQueryJSONGraphQL_v0 ::
  "(float32 list \<Rightarrow> string) \<Rightarrow> string \<Rightarrow> float32 list \<Rightarrow> int \<Rightarrow> string" where
  \<open>nearVectorQueryJSONGraphQL_v0 jsonMarshal className vec limit =
     (let vecJSON = jsonMarshal vec in
      ''{'' @ [CHR 0x0A] @ ''"query": "{ Get { '' @ className @ ''(limit: '' @ formatInt limit @
      '', nearVector: {vector:'' @ vecJSON @
      ''}) { _additional { id } } } }" '' @ [CHR 0x0A] @ ''}'')\<close>

definition nearVectorQueryJSONRest_v0 ::
  "(float32 list \<Rightarrow> string) \<Rightarrow> string \<Rightarrow> float32 list \<Rightarrow> int \<Rightarrow> string" where
  \<open>nearVectorQueryJSONRest_v0 jsonMarshal className vec limit =
     (let vecJSON = jsonMarshal vec in
      ''{'' @ [CHR 0x0A, CHR 0x09, CHR 0x09] @ ''"nearVector":{"vector":'' @ vecJSON @ ''},'' @
      [CHR 0x0A, CHR 0x09, CHR 0x09] @ ''"limit":'' @ formatInt limit @ [CHR 0x0A] @ ''}'')\<close>

text \<open>
  \<^verbatim>\<open>encodeUnsafe\<close> views the memory of the slice as bytes, four per element, in the byte
  order of the host (little-endian on the platforms the tool is built for). It takes the
  address of \<open>fs[0]\<close>, which panics on an empty slice.
\<close>

definition float32Bytes :: "float32 \<Rightarrow> byte list" where
  "float32Bytes w = [ucast w, ucast (drop_bit 8 w), ucast (drop_bit 16 w), ucast (drop_bit 24 w)]"

definition encodeUnsafe :: "float32 list \<Rightarrow> error + byte list" where
  "encodeUnsafe fs = (if fs = [] then Inl IndexOutOfRange else Inr (concat (map float32Bytes fs)))"

text \<open>
  The gRPC search request. \<^verbatim>\<open>nearVectorQueryGrpc\<close> fills the message and returns the
  bytes that \<^verbatim>\<open>proto.Marshal\<close> gives for it. \<open>protoMarshal\<close> stands for the first result
  of \<^verbatim>\<open>proto.Marshal\<close>: when \<^verbatim>\<open>Marshal\<close> reports an error (a string of the message is
  not valid UTF-8) the code prints the error and returns these bytes all the same.
  \<open>uint32(limit)\<close> keeps the low 32 bits.
\<close>

record SearchRequest =
  Collection :: string
  Limit_u32 :: "32 word"
  NearVector_VectorBytes :: "byte list"
  Metadata_Certainty :: bool
  Metadata_Distance :: bool
  Metadata_Uuid :: bool
  Tenant_pb :: string

definition nearVectorQueryGrpc ::
  "(SearchRequest \<Rightarrow> 'b) \<Rightarrow> string \<Rightarrow> float32 list \<Rightarrow> int \<Rightarrow> string \<Rightarrow> error + 'b" where
  "nearVectorQueryGrpc protoMarshal className vec limit tenant =
     (case encodeUnsafe vec of
        Inl err \<Rightarrow> Inl err
      | Inr vectorBytes \<Rightarrow>
          (let searchRequest =
                 \<lparr>Collection = className, Limit_u32 = word_of_int limit,
                  NearVector_VectorBytes = vectorBytes, Metadata_Certainty = False,
                  Metadata_Distance = False, Metadata_Uuid = True, Tenant_pb = ''''\<rparr>;
               searchRequest =
                 (if tenant \<noteq> '''' then searchRequest\<lparr>Tenant_pb := tenant\<rparr> else searchRequest);
               data = protoMarshal searchRequest
           in Inr data))"

text \<open>
  Modelled from the spec: the three-parameter \<^verbatim>\<open>nearVectorQueryGrpc\<close> that
  \<^verbatim>\<open>benchmarkANN\<close> calls is not among the sources (the builder above has four
  parameters). The spec describes the two call sites as the same operation, one of them
  without the last parameter, so it is the builder above with no tenant. The results about
  \<^verbatim>\<open>benchmarkANN\<close> below hold for any builder; this one is used at concrete inputs.
\<close>

definition nearVectorQueryGrpc_v0 ::
  "(SearchRequest \<Rightarrow> 'b) \<Rightarrow> string \<Rightarrow> float32 list \<Rightarrow> int \<Rightarrow> error + 'b" where
  "nearVectorQueryGrpc_v0 protoMarshal className vec limit =
     nearVectorQueryGrpc protoMarshal className vec limit ''''"

section \<open>Configuration and the generators\<close>

text \<open>The fields of \<^verbatim>\<open>Config\<close> that the two commands read or set.\<close>

record Config =
  Mode :: string
  Origin :: string
  Queries :: int
  Parallel :: int
  Limit :: int
  Dimensions :: int
  WhereFilter :: string
  ClassName :: string
  DB :: string
  API :: string
  Tenant :: string
  OutputFormat :: string
  OutputFile :: string
  BenchmarkFile :: string
  QueryOnly :: bool

record 'q QueryWithNeighbors =
  Query :: 'q
  Neighbors :: "int32 list"

text \<open>
  \<^verbatim>\<open>randomVector\<close> appends \<open>dims\<close> values \<open>rand.Float32()*2-1\<close>. The random source is a
  stream: \<open>draw k\<close> is the value made from its \<open>k\<close>-th number, and the position in the
  stream is passed along.
\<close>

definition randomVector :: "(nat \<Rightarrow> float32) \<Rightarrow> int \<Rightarrow> nat \<Rightarrow> float32 list \<times> nat" where
  "randomVector draw dims pos = (map (\<lambda>i. draw (pos + i)) [0..<nat dims], pos + nat dims)"

text \<open>
  The payload of a random-vector query: the JSON text of the GraphQL and REST builders,
  the bytes of the gRPC builder, or none (\<open>nil\<close>) when \<open>cfg.API\<close> is none of the three.
\<close>

datatype 'b payload = NoQuery | JSONQuery string | GrpcQuery 'b

text \<open>
  The closure that \<^verbatim>\<open>benchmarkNearVector\<close> passes to \<^verbatim>\<open>benchmark\<close>. Its parameter is the
  class name, which the body does not use. The gRPC branch calls \<^verbatim>\<open>nearVectorQueryGrpc\<close>
  with four arguments, the last of them \<open>cfg.Tenant\<close>.
\<close>

definition nearVectorGenerator ::
  "(float32 list \<Rightarrow> string) \<Rightarrow> (SearchRequest \<Rightarrow> 'b) \<Rightarrow> (nat \<Rightarrow> float32) \<Rightarrow> Config \<Rightarrow>
   string \<Rightarrow> nat \<Rightarrow> (error + 'b payload QueryWithNeighbors) \<times> nat" where
  "nearVectorGenerator jsonMarshal protoMarshal draw cfg className pos =
     (if API cfg = ''graphql'' then
        (case randomVector draw (Dimensions cfg) pos of
           (vec, pos') \<Rightarrow>
             (Inr \<lparr>Query = JSONQuery (nearVectorQueryJSONGraphQL jsonMarshal (ClassName cfg) vec
                                        (Limit cfg) (WhereFilter cfg)),
                   Neighbors = []\<rparr>, pos'))
      else if API cfg = ''rest'' then
        (case randomVector draw (Dimensions cfg) pos of
           (vec, pos') \<Rightarrow>
             (Inr \<lparr>Query = JSONQuery (nearVectorQueryJSONRest jsonMarshal (ClassName cfg) vec
                                        (Limit cfg)),
                   Neighbors = []\<rparr>, pos'))
      else if API cfg = ''grpc'' then
        (case randomVector draw (Dimensions cfg) pos of
           (vec, pos') \<Rightarrow>
             (case nearVectorQueryGrpc protoMarshal (ClassName cfg) vec (Limit cfg) (Tenant cfg) of
                Inl err \<Rightarrow> (Inl err, pos')
              | Inr data \<Rightarrow> (Inr \<lparr>Query = GrpcQuery data, Neighbors = []\<rparr>, pos')))
      else (Inr \<lparr>Query = NoQuery, Neighbors = []\<rparr>, pos))"

text \<open>
  \<^verbatim>\<open>benchmarkNearVector\<close> hands the configuration and the closure to \<^verbatim>\<open>benchmark\<close>, which
  is a parameter here: it receives the configuration, the closure and the closure's
  initial state.
\<close>

definition benchmarkNearVector ::
  "(Config \<Rightarrow> (string \<Rightarrow> nat \<Rightarrow> (error + 'b payload QueryWithNeighbors) \<times> nat) \<Rightarrow> nat \<Rightarrow> 'r) \<Rightarrow>
   (float32 list \<Rightarrow> string) \<Rightarrow> (SearchRequest \<Rightarrow> 'b) \<Rightarrow> (nat \<Rightarrow> float32) \<Rightarrow> Config \<Rightarrow>
   nat \<Rightarrow> 'r" where
  "benchmarkNearVector benchmark jsonMarshal protoMarshal draw cfg pos =
     benchmark cfg (nearVectorGenerator jsonMarshal protoMarshal draw cfg) pos"

text \<open>
  The closure that \<^verbatim>\<open>benchmarkANN\<close> passes to \<^verbatim>\<open>benchmark\<close>. Its parameter is the
  class name, which the body does not use. It captures the counter \<open>i\<close>, reads
  \<open>queries[i]\<close> and \<open>neighbors[i]\<close> (an index out of range panics) and increments \<open>i\<close> in
  a deferred call, so also when it panics. The closure is a function from the counter to
  the result and the new counter. \<open>build\<close> is the three-parameter query builder.
\<close>

definition annGenerator ::
  "(string \<Rightarrow> float32 list \<Rightarrow> int \<Rightarrow> error + 'q) \<Rightarrow> Config \<Rightarrow> float32 list list \<Rightarrow>
   int32 list list \<Rightarrow> string \<Rightarrow> nat \<Rightarrow> (error + 'q QueryWithNeighbors) \<times> nat" where
  "annGenerator build cfg queries neighbors className i =
     ((if length queries \<le> i then Inl IndexOutOfRange
       else
         (case build (ClassName cfg) (queries ! i) (Limit cfg) of
            Inl err \<Rightarrow> Inl err
          | Inr q \<Rightarrow>
              if length neighbors \<le> i then Inl IndexOutOfRange
              else Inr \<lparr>Query = q, Neighbors = neighbors ! i\<rparr>)),
      i + 1)"


text \<open>
  The state of a closure after it has been invoked with the given arguments, one
  invocation after the other.
\<close>

fun stateAfter :: "('a \<Rightarrow> 's \<Rightarrow> 'r \<times> 's) \<Rightarrow> 'a list \<Rightarrow> 's \<Rightarrow> 's" where
  "stateAfter g [] s = s"
| "stateAfter g (a # as) s = stateAfter g as (snd (g a s))"



section \<open>The structured output of ann-benchmark\<close>





section \<open>The two commands\<close>

text \<open>
  A command is modelled by the sequence of things it does that can be seen from outside:
  what it prints, the files and the service it touches, the benchmark runs it starts, and
  how the process ends. \<open>Benchmark cfg\<close> is the call of \<^verbatim>\<open>benchmark\<close> with the
  configuration \<open>cfg\<close>, which is where the workers are started. A printing event carries
  the format string without its final line break; the arguments are left out.
\<close>

datatype event =
    Println string
  | Printf string
  | LogPrintf string
  | Infof string
  | Exit int
  | LogFatal
  | Panic
  | Create string
  | OpenFile string
  | CreateSchema
  | OpenDataset string
  | ImportBatches
  | Sleep Duration
  | LoadNeighbors
  | LoadTest
  | UpdateEf int
  | Benchmark Config
  | WriteJSONTo
  | WriteTextTo
  | WriteFile

text \<open>\<^verbatim>\<open>os.Exit\<close>, \<^verbatim>\<open>log.Fatal\<close> and an unrecovered panic end the process.\<close>

fun terminal :: "event \<Rightarrow> bool" where
  "terminal (Exit status) = True"
| "terminal LogFatal = True"
| "terminal Panic = True"
| "terminal _ = False"

definition stopped :: "event list \<Rightarrow> bool" where
  "stopped tr = (tr \<noteq> [] \<and> terminal (last tr))"

text \<open>Statements in sequence: what follows a statement that ended the process does not run.\<close>

definition andThen :: "event list \<Rightarrow> event list \<Rightarrow> event list" where
  "andThen a b = (if stopped a then a else a @ b)"

definition inOrder :: "event list list \<Rightarrow> event list" where
  "inOrder stmts = foldr andThen stmts []"

fun isBenchmark :: "event \<Rightarrow> bool" where
  "isBenchmark (Benchmark cfg) = True"
| "isBenchmark _ = False"

definition benchmarkStarted :: "event list \<Rightarrow> bool" where
  "benchmarkStarted tr = (filter isBenchmark tr \<noteq> [])"

text \<open>
  What the commands depend on outside of their arguments: whether the calls to the file
  system, the HDF5 library and the service succeed, and the two datasets of the benchmark
  file.
\<close>

record env =
  createOk :: bool
  openFileOk :: bool
  schemaOk :: bool
  trainOk :: bool
  importOk :: bool
  datasetsOk :: bool
  updateEfOk :: bool
  marshalOk :: bool
  writeFileOk :: bool
  fileTest :: "float32 list list"
  fileNeighbors :: "int32 list list"

text \<open>
  Modelled from the spec: \<^verbatim>\<open>fatal\<close> is not among the sources. The spec has a
  configuration error surface as a validation failure and end the command before any
  worker starts, so \<^verbatim>\<open>fatal\<close> prints the error and ends the process with status 1; it
  does not return.
\<close>

definition fatal :: "string \<Rightarrow> event list" where
  "fatal err = [Println err, Exit 1]"

text \<open>\<^verbatim>\<open>strings.Replace(filter, "\"", "\\\"", -1)\<close>: a backslash before every double quote.\<close>

definition escapeQuotes :: "string \<Rightarrow> string" where
  "escapeQuotes s = concat (map (\<lambda>c. if c = CHR 0x22 then [CHR 0x5C, CHR 0x22] else [c]) s)"

text \<open>
  The \<^verbatim>\<open>Run\<close> function of \<^verbatim>\<open>randomVectorsCmd\<close>. \<open>validate\<close> is \<^verbatim>\<open>Config.Validate\<close>,
  which is not among the sources: \<open>None\<close> is its \<open>nil\<close>, \<open>Some err\<close> an error with
  message \<open>err\<close>.
\<close>

definition randomVectorsCmd :: "(Config \<Rightarrow> string option) \<Rightarrow> env \<Rightarrow> Config \<Rightarrow> event list" where
  "randomVectorsCmd validate e globalConfig =
     (let cfg = globalConfig\<lparr>Mode := ''random-vectors''\<rparr> in
      case validate cfg of
        Some err \<Rightarrow> [Println err, Exit 1]
      | None \<Rightarrow>
          (let cfg =
                 (if length (WhereFilter cfg) > 0
                  then cfg\<lparr>WhereFilter :=
                             escapeQuotes ('', where: { '' @ WhereFilter cfg @ '' }'')\<rparr>
                  else cfg)
           in if DB cfg = ''weaviate'' then
                inOrder
                  [if OutputFile cfg = '''' then []
                   else Create (OutputFile cfg) #
                          (if createOk e then [] else fatal ''create''),
                   [Benchmark cfg],
                   if OutputFormat cfg = ''json'' then [WriteJSONTo]
                   else if OutputFormat cfg = ''text'' then [WriteTextTo]
                   else [],
                   if OutputFile cfg \<noteq> '''' then [Infof ''results succesfully written to %q'']
                   else []]
              else [Printf ''unrecognized db'', Exit 1]))"

text \<open>
  \<^verbatim>\<open>loadANNBenchmarksFile\<close>: the schema is created again, the \<open>train\<close> dataset is
  streamed to the service, and the function pauses for \<^term>\<open>sleepDuration\<close>.
\<close>

definition compactionPause :: "event list" where
  "compactionPause =
     [LogPrintf ''Waiting for %s seconds to allow for compaction etc'', Sleep sleepDuration]"

definition loadANNBenchmarksFile :: "env \<Rightarrow> event list" where
  "loadANNBenchmarksFile e =
     inOrder
       [CreateSchema # (if schemaOk e then [] else [Panic]),
        OpenDataset ''train'' # (if trainOk e then [] else [LogFatal]),
        ImportBatches # (if importOk e then [] else [LogFatal]),
        LogPrintf ''Total import time: %v'' # compactionPause]"

definition efCandidates :: "int list" where
  "efCandidates = [16, 24, 32, 48, 64, 96, 128, 256, 512]"

text \<open>
  The \<^verbatim>\<open>Run\<close> function of \<^verbatim>\<open>annBenchmarkCommand\<close>. For every candidate \<open>ef\<close> it updates
  the schema and calls \<^verbatim>\<open>benchmarkANN\<close>, which passes \<open>cfg\<close> with \<open>Queries\<close> set to the
  number of test vectors on to \<^verbatim>\<open>benchmark\<close>.
\<close>

definition annBenchmarkCommand :: "(Config \<Rightarrow> string option) \<Rightarrow> env \<Rightarrow> Config \<Rightarrow> event list" where
  "annBenchmarkCommand validate e globalConfig =
     (let cfg = globalConfig\<lparr>Mode := ''ann-benchmark''\<rparr> in
      case validate cfg of
        Some err \<Rightarrow> fatal err
      | None \<Rightarrow>
          inOrder
            [OpenFile (BenchmarkFile cfg) # (if openFileOk e then [] else [LogFatal]),
             if \<not> QueryOnly cfg then LogPrintf ''Starting import with efC=%d, m=%d, shards=%d, distance=%s, dataset=%s'' #
                    loadANNBenchmarksFile e
             else [],
             [LogPrintf ''Starting querying for efC=%d, m=%d, shards=%d, distance=%s, dataset=%s''],
             LoadNeighbors # (if datasetsOk e then [] else [LogFatal]),
             LoadTest # (if datasetsOk e then [] else [LogFatal]),
             inOrder
               (map (\<lambda>ef. inOrder
                            [UpdateEf ef # (if updateEfOk e then [] else [Panic]),
                             [Benchmark (cfg\<lparr>Queries := int (length (fileTest e))\<rparr>),
                              LogPrintf ''mean=%s, qps=%f, recall=%f, api=%s, ef=%d, count=%d, failed=%d'']])
                  efCandidates),
             if marshalOk e then [] else [LogFatal],
             WriteFile # (if writeFileOk e then [] else [LogFatal])])"

text \<open>
  The global configuration when no flag is given on the command line. Both
  \<^verbatim>\<open>initRandomVectors\<close> and \<^verbatim>\<open>initAnnBenchmark\<close> bind their flags to the one
  \<^verbatim>\<open>globalConfig\<close>, and a flag writes its default when it is declared: a field with a flag
  in one function only has that default, a field with a flag in both has the default of
  the function that runs last, and a field without a flag has Go's zero value.
  \<open>randomVectorsFlags\<close> is the configuration when \<^verbatim>\<open>initRandomVectors\<close> runs last,
  \<open>annBenchmarkFlags\<close> when \<^verbatim>\<open>initAnnBenchmark\<close> does.
\<close>

definition randomVectorsFlags :: Config where
  "randomVectorsFlags =
     \<lparr>Mode = '''', Origin = ''http://localhost:8080'', Queries = 100, Parallel = 8, Limit = 10,
      Dimensions = 768, WhereFilter = '''', ClassName = '''', DB = ''weaviate'', API = ''graphql'',
      Tenant = '''', OutputFormat = ''text'', OutputFile = '''', BenchmarkFile = '''',
      QueryOnly = False\<rparr>"

definition annBenchmarkFlags :: Config where
  "annBenchmarkFlags =
     \<lparr>Mode = '''', Origin = ''localhost:50051'', Queries = 100, Parallel = 8, Limit = 10,
      Dimensions = 768, WhereFilter = '''', ClassName = ''Vector'', DB = ''weaviate'', API = ''grpc'',
      Tenant = '''', OutputFormat = ''text'', OutputFile = '''', BenchmarkFile = '''',
      QueryOnly = False\<rparr>"

section \<open>Recall\<close>

text \<open>
  Modelled from the spec: the recall scorer and the aggregation of recall belong to
  \<^verbatim>\<open>benchmark\<close>, which is not among the sources. The spec defines the score of a query as
  \<open>|returned \<inter> expected| / |expected|\<close> when \<open>|expected| > 0\<close> and as not applicable
  when \<open>|expected| = 0\<close>, and the recall of a run as the mean of the scores of the queries
  that had ground truth, not applicable if none had. \<open>None\<close> is "not applicable".
\<close>

definition score :: "int set \<Rightarrow> int set \<Rightarrow> real option" where
  "score returned expected =
     (if card expected > 0
      then Some (real (card (returned \<inter> expected)) / real (card expected))
      else None)"

definition meanRecall :: "real option list \<Rightarrow> real option" where
  "meanRecall scores =
     (let applicable = List.map_filter (\<lambda>s. s) scores
      in if applicable = [] then None
         else Some (sum_list applicable / real (length applicable)))"

text \<open>The outside world in which every call succeeds, for a benchmark file with the given datasets.\<close>

definition allCallsSucceed :: "float32 list list \<Rightarrow> int32 list list \<Rightarrow> env" where
  "allCallsSucceed test neighbors =
     \<lparr>createOk = True, openFileOk = True, schemaOk = True, trainOk = True, importOk = True,
      datasetsOk = True, updateEfOk = True, marshalOk = True, writeFileOk = True,
      fileTest = test, fileNeighbors = neighbors\<rparr>"

section \<open>The worker pool\<close>

text \<open>
  Modelled from the spec: the worker pool of \<^verbatim>\<open>benchmark\<close> is not among the sources. The
  spec has \<open>parallelism\<close> workers share one counter bounded by \<open>queryCount\<close>. A worker
  claims the next unclaimed index, which advances the counter; it then generates and
  transmits the query and appends one outcome to the recorder, a failed transmission as a
  failed outcome; once the counter has reached \<open>queryCount\<close> it claims no more and exits.
  The pool has drained when every worker has exited.

  The workers run concurrently. A run is an interleaving of their steps: the schedule
  names, step by step, the worker that moves next. Claiming and recording are the two
  atomic steps of a worker (the spec asks for an atomic counter and a synchronised
  recorder). \<open>transmit i\<close> tells whether the transmission of query \<open>i\<close> succeeds.
\<close>

record QueryOutcome =
  queryIndex :: nat
  success :: bool

datatype worker = Idle | Busy nat | Exited

record pool =
  counter :: nat
  workers :: "worker list"
  recorded :: "QueryOutcome list"

definition startPool :: "nat \<Rightarrow> pool" where
  "startPool parallelism = \<lparr>counter = 0, workers = replicate parallelism Idle, recorded = []\<rparr>"

definition workerStep :: "nat \<Rightarrow> (nat \<Rightarrow> bool) \<Rightarrow> pool \<Rightarrow> nat \<Rightarrow> pool" where
  "workerStep queryCount transmit p w =
     (if length (workers p) \<le> w then p
      else
        (case workers p ! w of
           Idle \<Rightarrow>
             if counter p < queryCount
             then p\<lparr>workers := (workers p)[w := Busy (counter p)], counter := counter p + 1\<rparr>
             else p\<lparr>workers := (workers p)[w := Exited]\<rparr>
         | Busy i \<Rightarrow>
             p\<lparr>recorded := recorded p @ [\<lparr>queryIndex = i, success = transmit i\<rparr>],
               workers := (workers p)[w := Idle]\<rparr>
         | Exited \<Rightarrow> p))"

definition runPool :: "nat \<Rightarrow> (nat \<Rightarrow> bool) \<Rightarrow> nat list \<Rightarrow> pool \<Rightarrow> pool" where
  "runPool queryCount transmit schedule p = foldl (workerStep queryCount transmit) p schedule"

definition drained :: "pool \<Rightarrow> bool" where
  "drained p = (workers p = replicate (length (workers p)) Exited)"

fun isBusy :: "worker \<Rightarrow> bool" where
  "isBusy (Busy i) = True"
| "isBusy _ = False"

text \<open>
  What every reachable state of the pool satisfies: the counter has not passed
  \<open>queryCount\<close>, every claimed index is either recorded or in the hands of a busy worker,
  and a worker has exited only after the counter reached \<open>queryCount\<close>.
\<close>

definition poolInvariant :: "nat \<Rightarrow> pool \<Rightarrow> bool" where
  "poolInvariant queryCount p =
     (counter p \<le> queryCount \<and>
      length (recorded p) + length (filter isBusy (workers p)) = counter p \<and>
      (Exited \<in> set (workers p) \<longrightarrow> counter p = queryCount))"

text \<open>One worker does all the work, then every worker finds the counter exhausted and exits.\<close>

definition serialSchedule :: "nat \<Rightarrow> nat \<Rightarrow> nat list" where
  "serialSchedule queryCount parallelism =
     concat (replicate queryCount [0, 0]) @ [0..<parallelism]"

section \<open>Properties\<close>

subsection \<open>Bytes and hexadecimal digits\<close>

lemma byte_of_word64:
  "k + 8 \<le> 64 \<Longrightarrow>
   bit (push_bit k (ucast (ucast (drop_bit k (v :: 64 word)) :: byte) :: 64 word)) n
     \<longleftrightarrow> k \<le> n \<and> n < k + 8 \<and> bit v n"
  by (auto simp add: bit_simps)

lemma Uint64_PutUint64: "Uint64 (PutUint64 v) = Inr v"
proof -
  have "ucast (ucast v :: byte) OR push_bit 8 (ucast (ucast (drop_bit 8 v) :: byte)) OR
        push_bit 16 (ucast (ucast (drop_bit 16 v) :: byte)) OR
        push_bit 24 (ucast (ucast (drop_bit 24 v) :: byte)) OR
        push_bit 32 (ucast (ucast (drop_bit 32 v) :: byte)) OR
        push_bit 40 (ucast (ucast (drop_bit 40 v) :: byte)) OR
        push_bit 48 (ucast (ucast (drop_bit 48 v) :: byte)) OR
        push_bit 56 (ucast (ucast (drop_bit 56 v) :: byte)) = v" (is "?w = v")
  proof (rule bit_word_eqI)
    fix n assume n: "n < LENGTH(64)"
    have b0: "bit (ucast (ucast v :: byte) :: 64 word) n \<longleftrightarrow> n < 8 \<and> bit v n"
      by (auto simp add: bit_simps)
    have bk: "bit (push_bit k (ucast (ucast (drop_bit k v) :: byte) :: 64 word)) n
         \<longleftrightarrow> k \<le> n \<and> n < k + 8 \<and> bit v n" if "k + 8 \<le> 64" for k
      using that by (rule byte_of_word64)
    have "bit ?w n \<longleftrightarrow>
       (n < 8 \<or> (8 \<le> n \<and> n < 16) \<or> (16 \<le> n \<and> n < 24) \<or> (24 \<le> n \<and> n < 32) \<or>
       (32 \<le> n \<and> n < 40) \<or> (40 \<le> n \<and> n < 48) \<or> (48 \<le> n \<and> n < 56) \<or>
       (56 \<le> n \<and> n < 64)) \<and> bit v n"
      by (simp only: bit_or_iff b0 bk) (simp, blast)
    moreover from n have "n < 8 \<or> (8 \<le> n \<and> n < 16) \<or> (16 \<le> n \<and> n < 24) \<or>
      (24 \<le> n \<and> n < 32) \<or> (32 \<le> n \<and> n < 40) \<or> (40 \<le> n \<and> n < 48) \<or>
      (48 \<le> n \<and> n < 56) \<or> (56 \<le> n \<and> n < 64)"
      by simp arith
    ultimately show "bit ?w n = bit v n" by simp
  qed
  then show ?thesis by (simp add: PutUint64_def)
qed

lemma xvalue_hextable: "n < 16 \<Longrightarrow> xvalue (hextable ! n) = of_nat n"
proof -
  assume "n < 16"
  then have "n \<in> set [0..<16]" by simp
  then show ?thesis
    unfolding hextable_def xvalue_def
    by (simp add: upt_rec) (elim disjE; simp)
qed

lemma nibble_not_255: "n < 16 \<Longrightarrow> (of_nat n :: byte) \<noteq> 255"
proof -
  assume "n < 16"
  then have "n \<in> set [0..<16]" by simp
  then show ?thesis
    by (simp add: upt_rec) (elim disjE; simp)
qed

lemma hi_nibble_less: "unat (drop_bit 4 (b :: byte)) < 16"
proof -
  have "unat b < 256" using unsigned_less [of b, where ?'a = nat] by simp
  then show ?thesis by (simp add: drop_bit_eq_div unat_div less_mult_imp_div_less)
qed

lemma lo_nibble_less: "unat ((b :: byte) AND 0x0f) < 16"
proof -
  have m: "(0x0f :: byte) = mask 4"
    by (simp add: mask_eq_exp_minus_1)
  have "unat (b AND mask 4) = take_bit 4 (unat b)"
    by (simp only: take_bit_eq_mask [symmetric] unsigned_take_bit_eq)
  also have "\<dots> < 2 ^ 4"
    by (rule take_bit_nat_less_exp)
  finally show ?thesis unfolding m by simp
qed

lemma nibbles_join:
  "push_bit 4 (of_nat (unat (drop_bit 4 b))) OR of_nat (unat (b AND 0x0f)) = (b :: byte)"
proof -
  have m: "(0x0f :: byte) = mask 4" by (simp add: mask_eq_exp_minus_1)
  show ?thesis
    unfolding m by (rule bit_word_eqI) (auto simp add: bit_simps)
qed

lemma xtob_encodeHex:
  "xtob (hextable ! unat (drop_bit 4 b)) (hextable ! unat (b AND 0x0f)) = (b, True)"
  by (simp add: xtob_def xvalue_hextable hi_nibble_less lo_nibble_less nibble_not_255 nibbles_join
      del: of_nat_unat)

lemma Parse_String_explicit:
  "Parse (String [b0, b1, b2, b3, b4, b5, b6, b7, b8, b9, b10, b11, b12, b13, b14, b15]) =
   Inr [b0, b1, b2, b3, b4, b5, b6, b7, b8, b9, b10, b11, b12, b13, b14, b15]"
  by (simp add: Parse_def String_def hexEncode_def encodeHexByte_def parseCanonical_def
      xtob_encodeHex)

lemma Parse_String: "length u = 16 \<Longrightarrow> Parse (String u) = Inr u"
  by (auto simp add: numeral_eq_Suc length_Suc_conv Parse_String_explicit [unfolded numeral_eq_Suc])

lemma length_PutUint64: "length (PutUint64 v) = 8"
  by (simp add: PutUint64_def)

lemma uuidFromInt_returns:
  "uuidFromInt val = Inr (String (replicate 8 0 @ PutUint64 (word_of_int val)))"
  by (simp add: uuidFromInt_def FromBytes_def length_PutUint64)

lemma int32FromUUID_uuidFromInt:
  "int32FromUUID (String (replicate 8 0 @ PutUint64 (word_of_int val))) =
   Inr (word_of_int val)"
proof -
  have "Parse (String (replicate 8 0 @ PutUint64 (word_of_int val))) =
        Inr (replicate 8 0 @ PutUint64 (word_of_int val))"
    by (rule Parse_String) (simp add: length_PutUint64)
  moreover have "(ucast (word_of_int val :: 64 word) :: int32) = word_of_int val"
    by (rule bit_word_eqI) (simp add: bit_simps)
  ultimately show ?thesis
    by (simp add: int32FromUUID_def Uint64_PutUint64)
qed

subsection \<open>Round trip, pause, payloads and output record\<close>

text \<open>
  C9. For every integer \<open>val\<close> with \<open>0 \<le> val < 2 ^ 31\<close>, \<^verbatim>\<open>uuidFromInt\<close> returns a UUID
  string (it does not panic), \<^verbatim>\<open>int32FromUUID\<close> accepts that string, and the number it
  returns is \<open>val\<close> again.
\<close>

theorem uuid_int32_roundtrip:
  assumes "0 \<le> val" and "val < 2 ^ 31"
  shows "\<exists>s w. uuidFromInt val = Inr s \<and> int32FromUUID s = Inr w \<and> sint w = val"
proof -
  have "sint (word_of_int val :: int32) = val"
    using assms by (simp add: sint_sbintrunc' signed_take_bit_int_eq_self)
  then show ?thesis
    using uuidFromInt_returns [of val] int32FromUUID_uuidFromInt [of val] by blast
qed

theorem uuid_int32_roundtrip_witness:
  "(0 :: int) \<le> 1000000 \<and> (1000000 :: int) < 2 ^ 31 \<and>
   (\<exists>s w. uuidFromInt 1000000 = Inr s \<and> int32FromUUID s = Inr w \<and> sint w = 1000000)"
  using uuid_int32_roundtrip [of 1000000] by simp

text \<open>
  C10. The pause computed in \<^verbatim>\<open>loadANNBenchmarksFile\<close>, \<open>5 & time.Second\<close>, is exactly zero
  nanoseconds: after the import the function logs that it waits and sleeps for no time.
\<close>

theorem sleepDuration_zero:
  "sleepDuration = 0 \<and> sint sleepDuration = 0 \<and>
   compactionPause =
     [LogPrintf ''Waiting for %s seconds to allow for compaction etc'', Sleep 0]"
  by (simp add: compactionPause_def sleepDuration_def Second_def Millisecond_def Microsecond_def
      Nanosecond_def)

text \<open>
  C8 (as amended). For every class name, vector and limit the two revisions of
  \<^verbatim>\<open>nearVectorQueryJSONRest\<close> build the same payload. The GraphQL builder called with an
  empty where filter builds the payload of the earlier revision without the blank before
  the final line break: the two payloads are not equal, the earlier one is one byte longer.
\<close>

theorem query_builders_agree_up_to_blank:
  "nearVectorQueryJSONRest jm className vec limit =
     nearVectorQueryJSONRest_v0 jm className vec limit \<and>
   (\<exists>p. nearVectorQueryJSONGraphQL jm className vec limit '''' = p @ [CHR 0x0A, CHR ''}''] \<and>
        nearVectorQueryJSONGraphQL_v0 jm className vec limit = p @ '' '' @ [CHR 0x0A, CHR ''}'']) \<and>
   length (nearVectorQueryJSONGraphQL_v0 jm className vec limit) =
     length (nearVectorQueryJSONGraphQL jm className vec limit '''') + 1"
proof (intro conjI)
  show "nearVectorQueryJSONRest jm className vec limit =
        nearVectorQueryJSONRest_v0 jm className vec limit"
    by (simp add: nearVectorQueryJSONRest_def nearVectorQueryJSONRest_v0_def)
  show "length (nearVectorQueryJSONGraphQL_v0 jm className vec limit) =
     length (nearVectorQueryJSONGraphQL jm className vec limit '''') + 1"
    by (simp add: nearVectorQueryJSONGraphQL_def nearVectorQueryJSONGraphQL_v0_def Let_def)
  show "\<exists>p. nearVectorQueryJSONGraphQL jm className vec limit '''' = p @ [CHR 0x0A, CHR ''}''] \<and>
        nearVectorQueryJSONGraphQL_v0 jm className vec limit = p @ '' '' @ [CHR 0x0A, CHR ''}'']"
    unfolding nearVectorQueryJSONGraphQL_def nearVectorQueryJSONGraphQL_v0_def Let_def
    by (rule exI [where x = "butlast (butlast (nearVectorQueryJSONGraphQL jm className vec limit ''''))"])
       (simp add: nearVectorQueryJSONGraphQL_def Let_def butlast_append)
qed

text \<open>
  C8 as stated fails: for the class \<open>Vector\<close>, an empty vector (printed \<open>[]\<close>) and limit 10
  the GraphQL payloads of the two revisions differ.
\<close>

theorem graphql_payloads_differ:
  "nearVectorQueryJSONGraphQL (\<lambda>vec. ''[]'') ''Vector'' [] 10 '''' \<noteq>
   nearVectorQueryJSONGraphQL_v0 (\<lambda>vec. ''[]'') ''Vector'' [] 10"
  by (simp add: nearVectorQueryJSONGraphQL_def nearVectorQueryJSONGraphQL_v0_def formatInt_def
      formatNat.simps)



subsection \<open>The generators\<close>

lemma annGenerator_ignores_argument:
  "annGenerator build cfg queries neighbors a i = annGenerator build cfg queries neighbors b i"
  by (simp add: annGenerator_def)

lemma stateAfter_annGenerator:
  "stateAfter (annGenerator build cfg queries neighbors) args i = i + length args"
  by (induction args arbitrary: i) (simp_all add: annGenerator_def)

lemma annGenerator_descriptor:
  assumes "i < length queries" and "i < length neighbors"
    and "build (ClassName cfg) (queries ! i) (Limit cfg) = Inr q"
  shows "fst (annGenerator build cfg queries neighbors a i) =
         Inr \<lparr>Query = q, Neighbors = neighbors ! i\<rparr>"
  using assms by (simp add: annGenerator_def)




text \<open>
  C4 (as amended). The generator that \<^verbatim>\<open>benchmarkANN\<close> passes to the engine takes the
  class name, not a query ordinal, and ignores it: with the same counter any two arguments
  give the same result. Every invocation advances the counter by one, so after \<open>k\<close>
  invocations, whatever their arguments, the counter is \<open>k\<close>, and the next invocation,
  the \<open>k\<close>-th counted from 0, reads \<open>queries[k]\<close> and \<open>neighbors[k]\<close>: where both exist and
  the builder returns a payload for \<open>queries[k]\<close>, it yields the descriptor with that
  payload and \<open>neighbors[k]\<close>, whatever its argument.
\<close>

theorem annGenerator_counts_invocations:
  "annGenerator build cfg queries neighbors a i = annGenerator build cfg queries neighbors b i \<and>
   stateAfter (annGenerator build cfg queries neighbors) args 0 = length args \<and>
   (length args < length queries \<and> length args < length neighbors \<and>
    build (ClassName cfg) (queries ! length args) (Limit cfg) = Inr q \<longrightarrow>
      fst (annGenerator build cfg queries neighbors a
             (stateAfter (annGenerator build cfg queries neighbors) args 0)) =
        Inr \<lparr>Query = q, Neighbors = neighbors ! length args\<rparr>)"
  using annGenerator_ignores_argument [of build cfg queries neighbors a i b]
    stateAfter_annGenerator [of build cfg queries neighbors args 0]
    annGenerator_descriptor [of "length args" queries neighbors build cfg q a]
  by simp

theorem annGenerator_counts_invocations_witness:
  "length [''Vector''] < length [[0x3F800000], [0x40000000 :: float32]] \<and>
   length [''Vector''] < length [[7], [8 :: int32]] \<and>
   nearVectorQueryGrpc_v0 id ''Vector'' ([[0x3F800000], [0x40000000]] ! length [''Vector'']) 10 =
     Inr \<lparr>Collection = ''Vector'', Limit_u32 = 10,
          NearVector_VectorBytes = [0x00, 0x00, 0x00, 0x40], Metadata_Certainty = False,
          Metadata_Distance = False, Metadata_Uuid = True, Tenant_pb = ''''\<rparr> \<and>
   fst (annGenerator (nearVectorQueryGrpc_v0 id)
         \<lparr>Mode = ''ann-benchmark'', Origin = ''localhost:50051'', Queries = 2, Parallel = 8,
          Limit = 10, Dimensions = 1, WhereFilter = '''', ClassName = ''Vector'', DB = ''weaviate'',
          API = ''grpc'', Tenant = '''', OutputFormat = ''text'', OutputFile = '''',
          BenchmarkFile = ''sift.hdf5'', QueryOnly = True\<rparr>
         [[0x3F800000], [0x40000000]] [[7], [8]] ''Other''
         (stateAfter
           (annGenerator (nearVectorQueryGrpc_v0 id)
             \<lparr>Mode = ''ann-benchmark'', Origin = ''localhost:50051'', Queries = 2, Parallel = 8,
              Limit = 10, Dimensions = 1, WhereFilter = '''', ClassName = ''Vector'',
              DB = ''weaviate'', API = ''grpc'', Tenant = '''', OutputFormat = ''text'',
              OutputFile = '''', BenchmarkFile = ''sift.hdf5'', QueryOnly = True\<rparr>
             [[0x3F800000], [0x40000000]] [[7], [8]])
           [''Vector''] 0)) =
     Inr \<lparr>Query = \<lparr>Collection = ''Vector'', Limit_u32 = 10,
                    NearVector_VectorBytes = [0x00, 0x00, 0x00, 0x40], Metadata_Certainty = False,
                    Metadata_Distance = False, Metadata_Uuid = True, Tenant_pb = ''''\<rparr>,
          Neighbors = [[7], [8]] ! length [''Vector'']\<rparr>"
proof -
  have h1: "length [''Vector''] < length [[0x3F800000], [0x40000000 :: float32]]"
    by simp
  have h2: "length [''Vector''] < length [[7], [8 :: int32]]"
    by simp
  have b: "nearVectorQueryGrpc_v0 id ''Vector'' ([[0x3F800000], [0x40000000]] ! length [''Vector'']) 10 =
     Inr \<lparr>Collection = ''Vector'', Limit_u32 = 10,
          NearVector_VectorBytes = [0x00, 0x00, 0x00, 0x40], Metadata_Certainty = False,
          Metadata_Distance = False, Metadata_Uuid = True, Tenant_pb = ''''\<rparr>"
    by (simp add: nearVectorQueryGrpc_v0_def nearVectorQueryGrpc_def encodeUnsafe_def
        float32Bytes_def)
  from annGenerator_counts_invocations
      [where build = "nearVectorQueryGrpc_v0 id"
        and cfg = "\<lparr>Mode = ''ann-benchmark'', Origin = ''localhost:50051'', Queries = 2,
          Parallel = 8, Limit = 10, Dimensions = 1, WhereFilter = '''', ClassName = ''Vector'',
          DB = ''weaviate'', API = ''grpc'', Tenant = '''', OutputFormat = ''text'',
          OutputFile = '''', BenchmarkFile = ''sift.hdf5'', QueryOnly = True\<rparr>"
        and queries = "[[0x3F800000], [0x40000000]]" and neighbors = "[[7], [8]]"
        and a = "''Other''" and args = "[''Vector'']"
        and q = "\<lparr>Collection = ''Vector'', Limit_u32 = 10,
          NearVector_VectorBytes = [0x00, 0x00, 0x00, 0x40], Metadata_Certainty = False,
          Metadata_Distance = False, Metadata_Uuid = True, Tenant_pb = ''''\<rparr>",
        unfolded Config.select_convs]
    h1 h2 b
  show ?thesis by blast
qed

text \<open>
  C4 as stated fails: two invocations with the same argument, one after the other, yield
  different descriptors (two queries of one dimension, 1.0 and 2.0, with neighbours 7
  and 8).
\<close>

theorem annGenerator_same_argument_differs:
  "fst (annGenerator (nearVectorQueryGrpc_v0 id)
         \<lparr>Mode = ''ann-benchmark'', Origin = ''localhost:50051'', Queries = 2, Parallel = 8,
          Limit = 10, Dimensions = 1, WhereFilter = '''', ClassName = ''Vector'', DB = ''weaviate'',
          API = ''grpc'', Tenant = '''', OutputFormat = ''text'', OutputFile = '''',
          BenchmarkFile = ''sift.hdf5'', QueryOnly = True\<rparr>
         [[0x3F800000], [0x40000000]] [[7], [8]] ''Vector'' 0) \<noteq>
   fst (annGenerator (nearVectorQueryGrpc_v0 id)
         \<lparr>Mode = ''ann-benchmark'', Origin = ''localhost:50051'', Queries = 2, Parallel = 8,
          Limit = 10, Dimensions = 1, WhereFilter = '''', ClassName = ''Vector'', DB = ''weaviate'',
          API = ''grpc'', Tenant = '''', OutputFormat = ''text'', OutputFile = '''',
          BenchmarkFile = ''sift.hdf5'', QueryOnly = True\<rparr>
         [[0x3F800000], [0x40000000]] [[7], [8]] ''Vector''
         (snd (annGenerator (nearVectorQueryGrpc_v0 id)
           \<lparr>Mode = ''ann-benchmark'', Origin = ''localhost:50051'', Queries = 2, Parallel = 8,
            Limit = 10, Dimensions = 1, WhereFilter = '''', ClassName = ''Vector'',
            DB = ''weaviate'', API = ''grpc'', Tenant = '''', OutputFormat = ''text'',
            OutputFile = '''', BenchmarkFile = ''sift.hdf5'', QueryOnly = True\<rparr>
           [[0x3F800000], [0x40000000]] [[7], [8]] ''Vector'' 0)))"
  by (simp add: annGenerator_def nearVectorQueryGrpc_v0_def nearVectorQueryGrpc_def
      encodeUnsafe_def float32Bytes_def)









subsection \<open>Validation comes first\<close>

lemma randomVectorsCmd_invalid:
  "validate (globalConfig\<lparr>Mode := ''random-vectors''\<rparr>) = Some err \<Longrightarrow>
   randomVectorsCmd validate e globalConfig = [Println err, Exit 1]"
  by (simp add: randomVectorsCmd_def)

lemma annBenchmarkCommand_invalid:
  "validate (globalConfig\<lparr>Mode := ''ann-benchmark''\<rparr>) = Some err \<Longrightarrow>
   annBenchmarkCommand validate e globalConfig = [Println err, Exit 1]"
  by (simp add: annBenchmarkCommand_def fatal_def)

lemma exit_trace: "stopped [Println err, Exit 1] \<and> \<not> benchmarkStarted [Println err, Exit 1]"
  by (simp add: stopped_def benchmarkStarted_def)

lemma benchmarkStarted_randomVectorsCmd:
  assumes "benchmarkStarted (randomVectorsCmd validate e globalConfig)"
  shows "validate (globalConfig\<lparr>Mode := ''random-vectors''\<rparr>) = None"
proof (rule ccontr)
  assume "validate (globalConfig\<lparr>Mode := ''random-vectors''\<rparr>) \<noteq> None"
  then obtain err where "validate (globalConfig\<lparr>Mode := ''random-vectors''\<rparr>) = Some err"
    by blast
  then have "randomVectorsCmd validate e globalConfig = [Println err, Exit 1]"
    by (rule randomVectorsCmd_invalid)
  with assms exit_trace [of err] show False by simp
qed

lemma benchmarkStarted_annBenchmarkCommand:
  assumes "benchmarkStarted (annBenchmarkCommand validate e globalConfig)"
  shows "validate (globalConfig\<lparr>Mode := ''ann-benchmark''\<rparr>) = None"
proof (rule ccontr)
  assume "validate (globalConfig\<lparr>Mode := ''ann-benchmark''\<rparr>) \<noteq> None"
  then obtain err where "validate (globalConfig\<lparr>Mode := ''ann-benchmark''\<rparr>) = Some err"
    by blast
  then have "annBenchmarkCommand validate e globalConfig = [Println err, Exit 1]"
    by (rule annBenchmarkCommand_invalid)
  with assms exit_trace [of err] show False by simp
qed

text \<open>
  C6. If \<^verbatim>\<open>Validate\<close> returns an error for the configuration of a command (the global
  configuration with the command's mode), the command prints the error and ends the
  process with status 1, and no benchmark is started; so a benchmark is started only when
  \<^verbatim>\<open>Validate\<close> returned \<open>nil\<close>. This holds for random-vectors and for ann-benchmark.
\<close>

theorem validation_error_ends_command:
  "(validate (globalConfig\<lparr>Mode := ''random-vectors''\<rparr>) = Some err \<longrightarrow>
      randomVectorsCmd validate e globalConfig = [Println err, Exit 1] \<and>
      stopped (randomVectorsCmd validate e globalConfig) \<and>
      \<not> benchmarkStarted (randomVectorsCmd validate e globalConfig)) \<and>
   (validate (globalConfig\<lparr>Mode := ''ann-benchmark''\<rparr>) = Some err \<longrightarrow>
      annBenchmarkCommand validate e globalConfig = [Println err, Exit 1] \<and>
      stopped (annBenchmarkCommand validate e globalConfig) \<and>
      \<not> benchmarkStarted (annBenchmarkCommand validate e globalConfig)) \<and>
   (benchmarkStarted (randomVectorsCmd validate e globalConfig) \<longrightarrow>
      validate (globalConfig\<lparr>Mode := ''random-vectors''\<rparr>) = None) \<and>
   (benchmarkStarted (annBenchmarkCommand validate e globalConfig) \<longrightarrow>
      validate (globalConfig\<lparr>Mode := ''ann-benchmark''\<rparr>) = None)"
proof (intro conjI impI)
  assume v: "validate (globalConfig\<lparr>Mode := ''random-vectors''\<rparr>) = Some err"
  then show r: "randomVectorsCmd validate e globalConfig = [Println err, Exit 1]"
    by (rule randomVectorsCmd_invalid)
  show "stopped (randomVectorsCmd validate e globalConfig)"
    unfolding r using exit_trace [of err] by blast
  show "\<not> benchmarkStarted (randomVectorsCmd validate e globalConfig)"
    unfolding r using exit_trace [of err] by blast
next
  assume v: "validate (globalConfig\<lparr>Mode := ''ann-benchmark''\<rparr>) = Some err"
  then show r: "annBenchmarkCommand validate e globalConfig = [Println err, Exit 1]"
    by (rule annBenchmarkCommand_invalid)
  show "stopped (annBenchmarkCommand validate e globalConfig)"
    unfolding r using exit_trace [of err] by blast
  show "\<not> benchmarkStarted (annBenchmarkCommand validate e globalConfig)"
    unfolding r using exit_trace [of err] by blast
next
  assume "benchmarkStarted (randomVectorsCmd validate e globalConfig)"
  then show "validate (globalConfig\<lparr>Mode := ''random-vectors''\<rparr>) = None"
    by (rule benchmarkStarted_randomVectorsCmd)
next
  assume "benchmarkStarted (annBenchmarkCommand validate e globalConfig)"
  then show "validate (globalConfig\<lparr>Mode := ''ann-benchmark''\<rparr>) = None"
    by (rule benchmarkStarted_annBenchmarkCommand)
qed

text \<open>
  A validator that refuses a parallelism below 1, on the default flags with
  \<open>--parallel 0\<close>: both commands end at once. On the default flags themselves, with a
  benchmark file of one test vector and every outside call succeeding, both commands
  start the benchmark.
\<close>

theorem validation_error_ends_command_witness:
  "(\<lambda>cfg. if Parallel cfg < 1 then Some ''parallel'' else None)
      (randomVectorsFlags\<lparr>Parallel := 0, Mode := ''random-vectors''\<rparr>) = Some ''parallel'' \<and>
   randomVectorsCmd (\<lambda>cfg. if Parallel cfg < 1 then Some ''parallel'' else None)
      (allCallsSucceed [[0x3F800000]] [[7]]) (randomVectorsFlags\<lparr>Parallel := 0\<rparr>) =
     [Println ''parallel'', Exit 1] \<and>
   (\<lambda>cfg. if Parallel cfg < 1 then Some ''parallel'' else None)
      (annBenchmarkFlags\<lparr>Parallel := 0, Mode := ''ann-benchmark''\<rparr>) = Some ''parallel'' \<and>
   annBenchmarkCommand (\<lambda>cfg. if Parallel cfg < 1 then Some ''parallel'' else None)
      (allCallsSucceed [[0x3F800000]] [[7]]) (annBenchmarkFlags\<lparr>Parallel := 0\<rparr>) =
     [Println ''parallel'', Exit 1] \<and>
   benchmarkStarted
     (randomVectorsCmd (\<lambda>cfg. if Parallel cfg < 1 then Some ''parallel'' else None)
        (allCallsSucceed [[0x3F800000]] [[7]]) randomVectorsFlags) \<and>
   (\<lambda>cfg. if Parallel cfg < 1 then Some ''parallel'' else None)
      (randomVectorsFlags\<lparr>Mode := ''random-vectors''\<rparr>) = None \<and>
   benchmarkStarted
     (annBenchmarkCommand (\<lambda>cfg. if Parallel cfg < 1 then Some ''parallel'' else None)
        (allCallsSucceed [[0x3F800000]] [[7]]) annBenchmarkFlags) \<and>
   (\<lambda>cfg. if Parallel cfg < 1 then Some ''parallel'' else None)
      (annBenchmarkFlags\<lparr>Mode := ''ann-benchmark''\<rparr>) = None"
proof -
  let ?v = "\<lambda>cfg. if Parallel cfg < 1 then Some ''parallel'' else None"
  let ?e = "allCallsSucceed [[0x3F800000]] [[7]]"
  have a1: "?v (randomVectorsFlags\<lparr>Parallel := 0, Mode := ''random-vectors''\<rparr>) = Some ''parallel''"
    by simp
  have a2: "?v (annBenchmarkFlags\<lparr>Parallel := 0, Mode := ''ann-benchmark''\<rparr>) = Some ''parallel''"
    by simp
  have b1: "benchmarkStarted (randomVectorsCmd ?v ?e randomVectorsFlags)"
    by (simp add: randomVectorsFlags_def randomVectorsCmd_def benchmarkStarted_def inOrder_def
        andThen_def stopped_def)
  have b2: "benchmarkStarted (annBenchmarkCommand ?v ?e annBenchmarkFlags)"
    by (simp add: annBenchmarkFlags_def annBenchmarkCommand_def benchmarkStarted_def inOrder_def
        andThen_def stopped_def efCandidates_def loadANNBenchmarksFile_def compactionPause_def
        allCallsSucceed_def)
  have c1: "randomVectorsCmd ?v ?e (randomVectorsFlags\<lparr>Parallel := 0\<rparr>) = [Println ''parallel'', Exit 1]"
    using validation_error_ends_command [of ?v "randomVectorsFlags\<lparr>Parallel := 0\<rparr>" "''parallel''" ?e]
      a1 by simp
  have c2: "annBenchmarkCommand ?v ?e (annBenchmarkFlags\<lparr>Parallel := 0\<rparr>) = [Println ''parallel'', Exit 1]"
    using validation_error_ends_command [of ?v "annBenchmarkFlags\<lparr>Parallel := 0\<rparr>" "''parallel''" ?e]
      a2 by simp
  have d1: "?v (randomVectorsFlags\<lparr>Mode := ''random-vectors''\<rparr>) = None"
    using validation_error_ends_command [of ?v randomVectorsFlags "''parallel''" ?e] b1 by blast
  have d2: "?v (annBenchmarkFlags\<lparr>Mode := ''ann-benchmark''\<rparr>) = None"
    using validation_error_ends_command [of ?v annBenchmarkFlags "''parallel''" ?e] b2 by blast
  from a1 a2 b1 b2 c1 c2 d1 d2 show ?thesis by blast
qed

subsection \<open>Recall\<close>

lemma meanRecall_skips_None: "meanRecall (xs @ None # ys) = meanRecall (xs @ ys)"
  by (simp add: meanRecall_def List.map_filter_def)

text \<open>
  C1 (as amended). The score of a query is \<open>|returned \<inter> expected| / |expected|\<close>
  whenever \<open>|expected| > 0\<close>. When \<open>|expected| = 0\<close> the query has no score, and a query
  without score is left out of the mean of a run, wherever it stands among the others. In
  particular \<open>score {1,2,3} {1,2,4,5} = 2/4 = 1/2\<close> and \<open>score {} {1,2,3} = 0\<close>.
\<close>

theorem recall_score_defined:
  "(card expected > 0 \<longrightarrow>
      score returned expected =
        Some (real (card (returned \<inter> expected)) / real (card expected))) \<and>
   (card expected = 0 \<longrightarrow>
      score returned expected = None \<and>
      meanRecall (before @ score returned expected # after) = meanRecall (before @ after)) \<and>
   score {1, 2, 3} {1, 2, 4, 5} = Some (1 / 2) \<and>
   score {} {1, 2, 3} = Some 0"
proof -
  have "{1, 2, 3} \<inter> {1, 2, 4, 5} = {1, 2 :: int}" by auto
  then have "score {1, 2, 3} {1, 2, 4, 5} = Some (1 / 2)"
    by (simp add: score_def)
  moreover have "score {} {1, 2, 3} = Some 0"
    by (simp add: score_def)
  ultimately show ?thesis
    by (simp add: score_def meanRecall_skips_None)
qed

theorem recall_score_defined_witness:
  "card {1, 2, 4, 5 :: int} > 0 \<and>
   score {1, 2, 3} {1, 2, 4, 5} =
     Some (real (card ({1, 2, 3} \<inter> {1, 2, 4, 5 :: int})) / real (card {1, 2, 4, 5 :: int})) \<and>
   card ({} :: int set) = 0 \<and>
   score {1, 2, 3} {} = None \<and>
   meanRecall ([Some 1] @ score {1, 2, 3} {} # [Some 0]) = meanRecall ([Some 1] @ [Some 0]) \<and>
   meanRecall ([Some 1] @ [Some 0]) = Some (1 / 2)"
  using recall_score_defined [of "{1, 2, 4, 5}" "{1, 2, 3}"]
    recall_score_defined [of "{}" "{1, 2, 3}" "[Some 1]" "[Some 0]"]
  by (simp add: meanRecall_def List.map_filter_def)

text \<open>
  C1 as stated fails in its first example: the intersection of \<open>{1,2,3}\<close> and
  \<open>{1,2,4,5}\<close> has two elements, so the score is \<open>2/4\<close>, which is not \<open>1/4\<close>.
\<close>

theorem recall_example_not_quarter: "score {1, 2, 3} {1, 2, 4, 5} \<noteq> Some (1 / 4)"
proof -
  have "{1, 2, 3} \<inter> {1, 2, 4, 5} = {1, 2 :: int}" by auto
  then show ?thesis by (simp add: score_def)
qed

subsection \<open>The worker pool\<close>

lemma busy_update:
  "w < length ws \<Longrightarrow>
   length (filter isBusy (ws[w := x])) + (if isBusy (ws ! w) then 1 else 0) =
   length (filter isBusy ws) + (if isBusy x then 1 else 0)"
proof (induction ws arbitrary: w)
  case Nil
  then show ?case by simp
next
  case (Cons a ws)
  show ?case
  proof (cases w)
    case 0
    then show ?thesis by simp
  next
    case (Suc v)
    with Cons.prems have "v < length ws" by simp
    from Cons.IH [OF this] Suc show ?thesis by simp
  qed
qed

lemma Exited_update:
  "Exited \<in> set (ws[w := x]) \<Longrightarrow> x \<noteq> Exited \<Longrightarrow> Exited \<in> set ws"
  using set_update_subset_insert [of ws w x] by auto

lemma workerStep_length: "length (workers (workerStep n t p w)) = length (workers p)"
  by (simp add: workerStep_def split: worker.split)

lemma workerStep_invariant:
  assumes "poolInvariant n p"
  shows "poolInvariant n (workerStep n t p w)"
proof (cases "length (workers p) \<le> w")
  case True
  with assms show ?thesis by (simp add: workerStep_def)
next
  case False
  then have w: "w < length (workers p)" by simp
  show ?thesis
  proof (cases "workers p ! w")
    case Idle
    show ?thesis
    proof (cases "counter p < n")
      case True
      from busy_update [OF w, of "Busy (counter p)"] Idle
      have "length (filter isBusy ((workers p)[w := Busy (counter p)])) =
            length (filter isBusy (workers p)) + 1" by simp
      moreover have "Exited \<in> set ((workers p)[w := Busy (counter p)]) \<Longrightarrow> Exited \<in> set (workers p)"
        using Exited_update [of "workers p" w "Busy (counter p)"] by simp
      ultimately show ?thesis
        using assms w Idle True
        by (auto simp add: workerStep_def poolInvariant_def split: if_splits)
    next
      case False
      from busy_update [OF w, of Exited] Idle
      have "length (filter isBusy ((workers p)[w := Exited])) = length (filter isBusy (workers p))"
        by simp
      then show ?thesis
        using assms w Idle False
        by (auto simp add: workerStep_def poolInvariant_def split: if_splits)
    qed
  next
    case (Busy i)
    from busy_update [OF w, of Idle] Busy
    have "length (filter isBusy ((workers p)[w := Idle])) + 1 = length (filter isBusy (workers p))"
      by simp
    moreover have "Exited \<in> set ((workers p)[w := Idle]) \<Longrightarrow> Exited \<in> set (workers p)"
      using Exited_update [of "workers p" w Idle] by simp
    ultimately show ?thesis
      using assms w Busy
      by (auto simp add: workerStep_def poolInvariant_def split: if_splits)
  next
    case Exited
    with assms w show ?thesis by (simp add: workerStep_def)
  qed
qed

lemma runPool_invariant:
  "poolInvariant n p \<Longrightarrow> poolInvariant n (runPool n t schedule p)"
  unfolding runPool_def
  by (induction schedule arbitrary: p) (simp_all add: workerStep_invariant)

lemma runPool_length: "length (workers (runPool n t schedule p)) = length (workers p)"
  unfolding runPool_def
  by (induction schedule arbitrary: p) (simp_all add: workerStep_length)

lemma startPool_invariant: "poolInvariant n (startPool parallelism)"
  by (simp add: poolInvariant_def startPool_def)

lemma drained_count:
  assumes "poolInvariant n p" and "drained p" and "1 \<le> length (workers p)"
  shows "length (recorded p) = n"
proof -
  from assms(2) have ws: "workers p = replicate (length (workers p)) Exited"
    by (simp add: drained_def)
  with assms(3) have "Exited \<in> set (workers p)"
    by (metis One_nat_def Suc_le_lessD in_set_replicate less_numeral_extra(3))
  moreover have "filter isBusy (workers p) = []"
    by (subst ws) simp
  ultimately show ?thesis
    using assms(1) by (simp add: poolInvariant_def)
qed

lemma serial_work:
  assumes "1 \<le> parallelism"
  shows "k \<le> n \<Longrightarrow>
    runPool n t (concat (replicate k [0, 0])) (startPool parallelism) =
      \<lparr>counter = k, workers = replicate parallelism Idle,
       recorded = map (\<lambda>i. \<lparr>queryIndex = i, success = t i\<rparr>) [0..<k]\<rparr>"
proof (induction k)
  case 0
  then show ?case by (simp add: runPool_def startPool_def)
next
  case (Suc k)
  then have k: "k < n" and IH: "runPool n t (concat (replicate k [0, 0])) (startPool parallelism) =
      \<lparr>counter = k, workers = replicate parallelism Idle,
       recorded = map (\<lambda>i. \<lparr>queryIndex = i, success = t i\<rparr>) [0..<k]\<rparr>"
    by simp_all
  have c: "concat (replicate (Suc k) [0, 0 :: nat]) = concat (replicate k [0, 0]) @ [0, 0]"
    by (induction k) simp_all
  from assms obtain m where m: "parallelism = Suc m" by (cases parallelism) simp_all
  show ?case
    unfolding c runPool_def foldl_append
    unfolding runPool_def [symmetric] IH
    using k by (simp add: runPool_def workerStep_def m)
qed

lemma exit_all:
  "runPool n t [j..<j + m]
     \<lparr>counter = n, workers = replicate j Exited @ replicate m Idle, recorded = r\<rparr> =
   \<lparr>counter = n, workers = replicate (j + m) Exited, recorded = r\<rparr>"
proof (induction m arbitrary: j)
  case 0
  then show ?case by (simp add: runPool_def)
next
  case (Suc m)
  have u: "[j..<j + Suc m] = j # [Suc j..<Suc j + m]"
    by (simp add: upt_conv_Cons)
  have s: "workerStep n t
     \<lparr>counter = n, workers = replicate j Exited @ replicate (Suc m) Idle, recorded = r\<rparr> j =
     \<lparr>counter = n, workers = replicate (Suc j) Exited @ replicate m Idle, recorded = r\<rparr>"
    by (simp add: workerStep_def nth_append list_update_append replicate_append_same)
  from Suc.IH [of "Suc j"] show ?case
    unfolding u by (simp add: runPool_def s del: replicate_Suc upt_Suc)
qed

lemma serialSchedule_drains:
  assumes "1 \<le> parallelism"
  shows "drained (runPool n t (serialSchedule n parallelism) (startPool parallelism))"
proof -
  have "runPool n t (serialSchedule n parallelism) (startPool parallelism) =
        runPool n t [0..<0 + parallelism]
          (runPool n t (concat (replicate n [0, 0])) (startPool parallelism))"
    by (simp add: serialSchedule_def runPool_def)
  also have "\<dots> = runPool n t [0..<0 + parallelism]
       \<lparr>counter = n, workers = replicate 0 Exited @ replicate parallelism Idle,
        recorded = map (\<lambda>i. \<lparr>queryIndex = i, success = t i\<rparr>) [0..<n]\<rparr>"
    using serial_work [OF assms, of n n t] by simp
  also have "\<dots> = \<lparr>counter = n, workers = replicate (0 + parallelism) Exited,
        recorded = map (\<lambda>i. \<lparr>queryIndex = i, success = t i\<rparr>) [0..<n]\<rparr>"
    by (rule exit_all)
  finally show ?thesis by (simp add: drained_def)
qed

text \<open>
  C2. For every run with \<open>queryCount = N\<close> and \<open>parallelism = P \<ge> 1\<close>, whatever the
  interleaving of the workers and whichever transmissions fail: when the pool has drained,
  the recorder holds exactly \<open>N\<close> outcomes. The pool can drain: the serial schedule is a
  run that does.
\<close>

theorem outcome_count_is_queryCount:
  assumes "1 \<le> parallelism"
  shows "drained (runPool queryCount transmit (serialSchedule queryCount parallelism)
           (startPool parallelism)) \<and>
         (drained (runPool queryCount transmit schedule (startPool parallelism)) \<longrightarrow>
          length (recorded (runPool queryCount transmit schedule (startPool parallelism))) =
            queryCount)"
proof -
  have "poolInvariant queryCount (runPool queryCount transmit schedule (startPool parallelism))"
    by (rule runPool_invariant) (rule startPool_invariant)
  moreover have "length (workers (runPool queryCount transmit schedule (startPool parallelism))) =
      parallelism"
    by (simp add: runPool_length startPool_def)
  ultimately show ?thesis
    using assms serialSchedule_drains [OF assms, of queryCount transmit]
      drained_count [of queryCount "runPool queryCount transmit schedule (startPool parallelism)"]
    by simp
qed

theorem outcome_count_is_queryCount_witness:
  "(1 :: nat) \<le> 2 \<and>
   drained (runPool 3 (\<lambda>i. i \<noteq> 1) [0, 1, 1, 0, 1, 1, 0, 0, 1] (startPool 2)) \<and>
   length (recorded (runPool 3 (\<lambda>i. i \<noteq> 1) [0, 1, 1, 0, 1, 1, 0, 0, 1] (startPool 2))) = 3 \<and>
   map success (recorded (runPool 3 (\<lambda>i. i \<noteq> 1) [0, 1, 1, 0, 1, 1, 0, 0, 1] (startPool 2))) =
     [False, True, True]"
proof -
  have d: "drained (runPool 3 (\<lambda>i. i \<noteq> 1) [0, 1, 1, 0, 1, 1, 0, 0, 1] (startPool 2))"
    by code_simp
  have s: "map success (recorded (runPool 3 (\<lambda>i. i \<noteq> 1) [0, 1, 1, 0, 1, 1, 0, 0, 1] (startPool 2))) =
     [False, True, True]"
    by code_simp
  from outcome_count_is_queryCount [of 2 3 "\<lambda>i. i \<noteq> 1" "[0, 1, 1, 0, 1, 1, 0, 0, 1]"] d s
  show ?thesis by simp
qed

end
